theory Spec2Isabelle
  imports Main "HOL-Library.Sublist"
begin

section \<open>Python values, exceptions and generator outcomes\<close>

text \<open>
  The payloads that travel through \<^verbatim>\<open>search_with_langchain.py\<close> are untyped Python
  values. The model keeps the kinds the generator can tell apart: \<^verbatim>\<open>None\<close>, booleans,
  \<^verbatim>\<open>str\<close>, lists, and any other object, which is opaque except for its truth value
  (what \<^verbatim>\<open>not data\<close> reads).
\<close>

datatype pyval =
    PyNone
  | PyBool bool
  | PyStr string
  | PyList "pyval list"
  | PyObject bool

text \<open>Python's truth value of an object, as tested by \<^verbatim>\<open>if not data\<close>.\<close>

fun truthy :: "pyval \<Rightarrow> bool" where
  "truthy PyNone = False"
| "truthy (PyBool b) = b"
| "truthy (PyStr s) = (s \<noteq> [])"
| "truthy (PyList xs) = (xs \<noteq> [])"
| "truthy (PyObject b) = b"

text \<open>
  The exceptions \<^verbatim>\<open>json.dumps\<close> raises on a value it cannot serialise. Each of them is a
  subclass of \<^verbatim>\<open>Exception\<close>, so the clause \<^verbatim>\<open>except Exception\<close> catches every value
  of this type.
\<close>

datatype pyexn = TypeError string | ValueError string | RecursionError string

text \<open>
  A generator run is the list of the values it yielded, in order, together with how it
  ended: by falling off the end of its body, or by an exception that leaves it.
\<close>

datatype outcome = Finished | Raised pyexn

type_synonym stream = "pyval list \<times> outcome"

text \<open>\<^verbatim>\<open>yield v\<close> followed by the rest of the run.\<close>

fun yield :: "pyval \<Rightarrow> stream \<Rightarrow> stream" where
  "yield v (vs, r) = (v # vs, r)"

text \<open>
  One run followed by another: the second one starts only when the first one finished;
  an exception ends the whole run where it was raised.
\<close>

fun seq_streams :: "stream \<Rightarrow> stream \<Rightarrow> stream" where
  "seq_streams (a, Finished) (b, r) = (a @ b, r)"
| "seq_streams (a, Raised e) _ = (a, Raised e)"

text \<open>
  The text a client reads: the yielded chunks joined in order. It exists when every
  chunk is a \<^verbatim>\<open>str\<close>, the yield type the generator declares
  (\<^verbatim>\<open>Generator[str, None, None]\<close>).
\<close>

fun stream_text :: "pyval list \<Rightarrow> string option" where
  "stream_text [] = Some []"
| "stream_text (PyStr s # vs) =
     (case stream_text vs of None \<Rightarrow> None | Some t \<Rightarrow> Some (s @ t))"
| "stream_text (_ # vs) = None"

section \<open>Constants of the module\<close>

text \<open>\<^verbatim>\<open>_default_query\<close> (line 18).\<close>

definition default_query :: string where
  "default_query = ''When was breath of the wild first released?''"

text \<open>The delimiter \<^verbatim>\<open>"\n\n__LLM_RESPONSE__\n\n"\<close> of line 85.\<close>

definition llm_delim :: string where
  "llm_delim = [CHR 0x0A, CHR 0x0A] @ ''__LLM_RESPONSE__'' @ [CHR 0x0A, CHR 0x0A]"

text \<open>The delimiter \<^verbatim>\<open>"\n\n__RELATED_QUESTIONS__\n\n"\<close> of line 97.\<close>

definition rq_delim :: string where
  "rq_delim = [CHR 0x0A, CHR 0x0A] @ ''__RELATED_QUESTIONS__'' @ [CHR 0x0A, CHR 0x0A]"

text \<open>The warning of line 89, with its two trailing newlines.\<close>

definition disclaimer :: string where
  "disclaimer =
     ''(The search engine returned nothing for this query. Please take the answer with a grain of salt.)''
     @ [CHR 0x0A, CHR 0x0A]"

section \<open>The stream generator\<close>

text \<open>
  \<^verbatim>\<open>_raw_stream_response(results)\<close>, lines 75 to 97. \<^verbatim>\<open>results\<close> is the sequence of
  \<^verbatim>\<open>(step, data)\<close> pairs of the backend. \<^verbatim>\<open>json.dumps\<close> belongs to the Python library
  and is a parameter \<open>dumps\<close>: \<open>Inr s\<close> when it returns the text \<open>s\<close>, \<open>Inl e\<close> when
  it raises \<open>e\<close>.

  In the \<^verbatim>\<open>"contexts"\<close> branch the expression \<^verbatim>\<open>json.dumps(data) + "..."\<close> is
  evaluated before anything is yielded and outside any \<^verbatim>\<open>try\<close>, so an exception leaves
  the generator. In the \<^verbatim>\<open>"related_questions"\<close> branch the call sits in
  \<^verbatim>\<open>try ... except Exception\<close>. A step that matches none of the three literals falls
  through the \<^verbatim>\<open>if/elif\<close> chain and the loop goes on.
\<close>

fun raw_stream_response ::
  "(pyval \<Rightarrow> pyexn + string) \<Rightarrow> (string \<times> pyval) list \<Rightarrow> stream" where
  "raw_stream_response dumps [] = ([], Finished)"
| "raw_stream_response dumps ((step, data) # results) =
     (if step = ''contexts'' then
        (case dumps data of
           Inl e \<Rightarrow> ([], Raised e)
         | Inr s \<Rightarrow> yield (PyStr (s @ llm_delim)) (raw_stream_response dumps results))
      else if step = ''llm_response'' then
        (if \<not> truthy data then
           yield (PyStr disclaimer) (yield data (raw_stream_response dumps results))
         else yield data (raw_stream_response dumps results))
      else if step = ''related_questions'' then
        (let result = (case dumps data of Inl e \<Rightarrow> ''[]'' | Inr s \<Rightarrow> s)
         in yield (PyStr (rq_delim @ result)) (raw_stream_response dumps results))
      else raw_stream_response dumps results)"

section \<open>The request handler\<close>

text \<open>The pydantic model \<^verbatim>\<open>QueryRequest\<close> (lines 27 to 30).\<close>

record QueryRequest =
  query :: string
  search_uuid :: string
  generate_related_questions :: "bool option"

text \<open>
  \<^verbatim>\<open>re.sub(r"\[/?INST\]", "", query)\<close> (line 120): one scan from left to right; where
  the pattern matches, the match is dropped and the scan goes on behind it; elsewhere
  the character is kept. The pattern matches at a position exactly when the text there
  starts with \<^verbatim>\<open>[/INST]\<close> or with \<^verbatim>\<open>[INST]\<close>.
\<close>

fun re_sub_INST :: "string \<Rightarrow> string" where
  "re_sub_INST [] = []"
| "re_sub_INST (c # cs) =
     (if prefix ''[/INST]'' (c # cs) then re_sub_INST (drop 7 (c # cs))
      else if prefix ''[INST]'' (c # cs) then re_sub_INST (drop 6 (c # cs))
      else c # re_sub_INST cs)"

text \<open>
  \<^verbatim>\<open>query_function(body)\<close>, lines 101 to 124, without its log lines. The backend
  \<^verbatim>\<open>search_with_llm\<close> is imported from a module outside this file and is a parameter.
  The result is the pair of arguments the backend was called with (line 122) and the run
  of the generator handed to \<^verbatim>\<open>StreamingResponse\<close> (line 124).
\<close>

definition query_function ::
  "(string \<Rightarrow> bool option \<Rightarrow> (string \<times> pyval) list) \<Rightarrow> (pyval \<Rightarrow> pyexn + string)
   \<Rightarrow> QueryRequest \<Rightarrow> (string \<times> bool option) \<times> stream" where
  "query_function search_with_llm dumps body =
     (let q0 = query body;
          g = generate_related_questions body;
          q1 = (if q0 = [] then default_query else q0);
          q2 = re_sub_INST q1;
          results = search_with_llm q2 g
      in ((q2, g), raw_stream_response dumps results))"

section \<open>A serialiser and a backend for running the model\<close>

text \<open>
  A serialiser to evaluate the generator on concrete inputs. It writes the values the
  way \<^verbatim>\<open>json.dumps\<close> writes them where no character needs escaping, and raises
  \<^verbatim>\<open>TypeError\<close> on an opaque object, as \<^verbatim>\<open>json.dumps\<close> does on an object it has no
  encoding for. The theorems below hold for every \<open>dumps\<close>; this one only instantiates
  them.
\<close>

fun join_items :: "string list \<Rightarrow> string" where
  "join_items [] = []"
| "join_items [s] = s"
| "join_items (s # t # ts) = s @ '', '' @ join_items (t # ts)"

fun collect :: "(pyexn + string) list \<Rightarrow> pyexn + string list" where
  "collect [] = Inr []"
| "collect (Inl e # _) = Inl e"
| "collect (Inr s # rs) = (case collect rs of Inl e \<Rightarrow> Inl e | Inr ss \<Rightarrow> Inr (s # ss))"

fun sample_dumps :: "pyval \<Rightarrow> pyexn + string" where
  "sample_dumps PyNone = Inr ''null''"
| "sample_dumps (PyBool b) = Inr (if b then ''true'' else ''false'')"
| "sample_dumps (PyStr s) = Inr ([CHR 0x22] @ s @ [CHR 0x22])"
| "sample_dumps (PyList xs) =
     (case collect (map sample_dumps xs) of
        Inl e \<Rightarrow> Inl e
      | Inr ss \<Rightarrow> Inr (''['' @ join_items ss @ '']''))"
| "sample_dumps (PyObject b) = Inl (TypeError ''Object is not JSON serializable'')"

text \<open>A backend that answers with the query it was given, to make the dispatched query
  visible in the stream.\<close>

definition echo_backend :: "string \<Rightarrow> bool option \<Rightarrow> (string \<times> pyval) list" where
  "echo_backend q g = [(''llm_response'', PyStr q)]"

section \<open>Lemmas on the generator and the scan\<close>

text \<open>The run over two sequences in a row is the run over the first followed by the run
  over the second.\<close>

lemma raw_stream_response_append:
  "raw_stream_response dumps (xs @ ys) =
     seq_streams (raw_stream_response dumps xs) (raw_stream_response dumps ys)"
proof (induction xs)
  case Nil
  show ?case by (cases "raw_stream_response dumps ys") simp
next
  case (Cons x xs)
  obtain step data where x: "x = (step, data)" by (cases x)
  obtain a r where t: "raw_stream_response dumps xs = (a, r)" by (cases "raw_stream_response dumps xs")
  obtain b r' where u: "raw_stream_response dumps ys = (b, r')" by (cases "raw_stream_response dumps ys")
  show ?case using Cons.IH
    by (cases r) (simp_all add: x t u Let_def split: sum.splits)
qed

text \<open>The default query holds no marker: the scan returns it as it is.\<close>

lemma re_sub_INST_default: "re_sub_INST default_query = default_query"
  by (simp add: default_query_def)

text \<open>The scan only removes characters: what it returns is a subsequence of the query,
  so the characters that stay keep their order.\<close>

lemma subseq_re_sub_INST: "subseq (re_sub_INST q) q"
proof (induction q rule: re_sub_INST.induct)
  case 1
  show ?case by simp
next
  case (2 c cs)
  have d: "subseq (drop n (c # cs)) (c # cs)" for n
    by (metis append_take_drop_id list_emb_append2 subseq_order.order_refl)
  show ?case
  proof (cases "prefix ''[/INST]'' (c # cs)")
    case True
    then have "re_sub_INST (c # cs) = re_sub_INST (drop 7 (c # cs))"
      by (subst re_sub_INST.simps(2)) (simp only: if_True)
    with "2.IH"(1) [OF True] d [of 7] show ?thesis
      by (metis subseq_order.order_trans)
  next
    case False
    show ?thesis
    proof (cases "prefix ''[INST]'' (c # cs)")
      case True
      with False have "re_sub_INST (c # cs) = re_sub_INST (drop 6 (c # cs))"
        by (subst re_sub_INST.simps(2)) (simp only: if_True if_False)
      with "2.IH"(2) [OF False True] d [of 6] show ?thesis
        by (metis subseq_order.order_trans)
    next
      case n: False
      with False have "re_sub_INST (c # cs) = c # re_sub_INST cs"
        by (subst re_sub_INST.simps(2)) (simp only: if_False)
      with "2.IH"(3) [OF False n] show ?thesis
        by simp
    qed
  qed
qed

text \<open>A run that finished, followed by another run.\<close>

lemma seq_streams_Finished: "seq_streams (a, Finished) s = (a @ fst s, snd s)"
  by (cases s) simp

text \<open>A single item ends the generator only through a \<^verbatim>\<open>"contexts"\<close> payload that
  \<open>dumps\<close> rejects.\<close>

lemma single_item_finished:
  assumes "step = ''contexts'' \<longrightarrow> \<not> isl (dumps data)"
  shows "snd (raw_stream_response dumps [(step, data)]) = Finished"
  using assms by (cases "dumps data") (simp_all add: Let_def)

text \<open>The empty run that finished changes nothing in front of another run.\<close>

lemma seq_streams_unit: "seq_streams ([], Finished) s = s"
  by (cases s) simp

text \<open>The run over a sequence, seen from one of its items: the run over what stands
  before the item, then the run over the item alone, then the run over what follows.\<close>

lemma item_at_position:
  "raw_stream_response dumps (pre @ x # rest) =
     seq_streams (raw_stream_response dumps pre)
       (seq_streams (raw_stream_response dumps [x]) (raw_stream_response dumps rest))"
proof -
  have "raw_stream_response dumps (pre @ [x] @ rest) =
     seq_streams (raw_stream_response dumps pre)
       (seq_streams (raw_stream_response dumps [x]) (raw_stream_response dumps rest))"
    by (simp only: raw_stream_response_append)
  then show ?thesis by simp
qed

section \<open>The request handler: sanitisation and default query\<close>

text \<open>
  C1. The claim: a query that holds \<^verbatim>\<open>[INST]\<close> or \<^verbatim>\<open>[/INST]\<close> is dispatched without
  either marker. The scan of line 120 is a single pass, so a marker wrapped around
  another one is put together by the removal: the request with the query
  \<^verbatim>\<open>[IN[INST]ST]\<close> reaches the backend as \<^verbatim>\<open>[INST]\<close>, whatever the backend, the
  serialiser and the other fields are.
\<close>

theorem nested_marker_dispatched:
  "fst (fst (query_function search_with_llm dumps
     \<lparr>query = ''[IN[INST]ST]'', search_uuid = u, generate_related_questions = g\<rparr>)) = ''[INST]''"
  by (simp add: query_function_def Let_def)

text \<open>
  C6. A request whose query is the empty string is dispatched with the default query
  \<^verbatim>\<open>"When was breath of the wild first released?"\<close>, which the scan leaves unchanged;
  the handler answers it exactly as it answers a request that carries the default query
  as its text.
\<close>

theorem empty_query_dispatches_default:
  assumes "query body = []"
  shows "query_function search_with_llm dumps body =
           ((default_query, generate_related_questions body),
            raw_stream_response dumps
              (search_with_llm default_query (generate_related_questions body)))
         \<and> query_function search_with_llm dumps body =
           query_function search_with_llm dumps (body\<lparr>query := default_query\<rparr>)"
proof -
  have ne: "default_query \<noteq> []" by (simp add: default_query_def)
  show ?thesis using assms ne
    by (simp add: query_function_def Let_def re_sub_INST_default)
qed

theorem empty_query_dispatches_default_witness:
  "query \<lparr>query = [], search_uuid = ''u1'', generate_related_questions = Some True\<rparr> = []
   \<and> query_function echo_backend sample_dumps
        \<lparr>query = [], search_uuid = ''u1'', generate_related_questions = Some True\<rparr> =
      ((''When was breath of the wild first released?'', Some True),
       ([PyStr ''When was breath of the wild first released?''], Finished))"
proof -
  have h: "query \<lparr>query = [], search_uuid = ''u1'', generate_related_questions = Some True\<rparr> = []"
    by simp
  from empty_query_dispatches_default [OF h, of echo_backend sample_dumps] show ?thesis
    by (simp add: echo_backend_def default_query_def)
qed

section \<open>The stream generator: frames and their order\<close>

text \<open>
  C2. For the staged sequence contexts \<open>c\<close>, answer chunk \<^verbatim>\<open>"a1"\<close>, answer chunk
  \<^verbatim>\<open>"a2"\<close>, related questions \<open>[q1, q2]\<close>, where \<open>sc\<close> and \<open>sq\<close> are the
  serialisations of \<open>c\<close> and of \<open>[q1, q2]\<close>, the generator yields four chunks and the
  text they make up is exactly \<open>sc\<close>, the answer delimiter, \<^verbatim>\<open>a1\<close>, \<^verbatim>\<open>a2\<close>, the
  related-questions delimiter, \<open>sq\<close>, in that order and with nothing else. An answer
  chunk is a pair whose step is \<^verbatim>\<open>"llm_response"\<close>, the literal of line 86.
\<close>

theorem staged_sequence_output:
  assumes "dumps c = Inr sc"
    and "dumps (PyList [PyStr q1, PyStr q2]) = Inr sq"
  shows "raw_stream_response dumps
           [(''contexts'', c), (''llm_response'', PyStr ''a1''), (''llm_response'', PyStr ''a2''),
            (''related_questions'', PyList [PyStr q1, PyStr q2])] =
         ([PyStr (sc @ llm_delim), PyStr ''a1'', PyStr ''a2'', PyStr (rq_delim @ sq)], Finished)
       \<and> stream_text (fst (raw_stream_response dumps
           [(''contexts'', c), (''llm_response'', PyStr ''a1''), (''llm_response'', PyStr ''a2''),
            (''related_questions'', PyList [PyStr q1, PyStr q2])])) =
         Some (sc @ llm_delim @ ''a1'' @ ''a2'' @ rq_delim @ sq)"
  using assms by simp

theorem staged_sequence_output_witness:
  "sample_dumps (PyList [PyStr ''ctx'']) = Inr ([CHR ''['', CHR 0x22] @ ''ctx'' @ [CHR 0x22, CHR '']''])
   \<and> sample_dumps (PyList [PyStr ''q1'', PyStr ''q2'']) =
       Inr ([CHR ''['', CHR 0x22] @ ''q1'' @ [CHR 0x22] @ '', '' @ [CHR 0x22] @ ''q2'' @ [CHR 0x22, CHR '']''])
   \<and> stream_text (fst (raw_stream_response sample_dumps
           [(''contexts'', PyList [PyStr ''ctx'']), (''llm_response'', PyStr ''a1''),
            (''llm_response'', PyStr ''a2''),
            (''related_questions'', PyList [PyStr ''q1'', PyStr ''q2''])])) =
       Some ([CHR ''['', CHR 0x22] @ ''ctx'' @ [CHR 0x22, CHR '']''] @ llm_delim @ ''a1'' @ ''a2'' @ rq_delim
             @ [CHR ''['', CHR 0x22] @ ''q1'' @ [CHR 0x22] @ '', '' @ [CHR 0x22] @ ''q2'' @ [CHR 0x22, CHR '']''])"
proof -
  have h1: "sample_dumps (PyList [PyStr ''ctx'']) = Inr ([CHR ''['', CHR 0x22] @ ''ctx'' @ [CHR 0x22, CHR '']''])"
    by simp
  have h2: "sample_dumps (PyList [PyStr ''q1'', PyStr ''q2'']) =
       Inr ([CHR ''['', CHR 0x22] @ ''q1'' @ [CHR 0x22] @ '', '' @ [CHR 0x22] @ ''q2'' @ [CHR 0x22, CHR '']''])"
    by simp
  from staged_sequence_output [OF h1 h2] h1 h2 show ?thesis
    by simp
qed

text \<open>
  C3. The claim: the warning is emitted only before the first answer item, and only when
  the text of that item is empty; the answer chunks behind the first one follow each
  other with nothing between them. The comment of line 87 says the warning is prepended
  to the response, but the test \<^verbatim>\<open>if not data\<close> of line 88 runs for every answer item
  and the generator keeps no record of which one is the first. For the answer chunk
  \<^verbatim>\<open>"a"\<close> followed by an empty answer chunk the generator yields \<^verbatim>\<open>a\<close>, then the
  warning, then the empty text: the warning stands behind the first answer chunk, in the
  middle of the answer.
\<close>

theorem disclaimer_after_first_answer:
  "raw_stream_response sample_dumps [(''llm_response'', PyStr ''a''), (''llm_response'', PyStr [])] =
     ([PyStr ''a'', PyStr disclaimer, PyStr []], Finished)
   \<and> stream_text (fst (raw_stream_response sample_dumps
        [(''llm_response'', PyStr ''a''), (''llm_response'', PyStr [])])) = Some (''a'' @ disclaimer)"
  by simp

text \<open>
  C4, as the claim states it: a pair whose step is \<^verbatim>\<open>"answer"\<close> has its text emitted.
  The generator has no branch for that literal; the pair yields nothing.
\<close>

theorem answer_stage_emits_nothing:
  "raw_stream_response sample_dumps [(''answer'', PyStr ''hi'')] = ([], Finished)"
  by simp

text \<open>
  C4, amended. The stage names that have a branch are exactly \<^verbatim>\<open>"contexts"\<close>,
  \<^verbatim>\<open>"llm_response"\<close> and \<^verbatim>\<open>"related_questions"\<close>: a one-item run yields something or
  raises exactly for these three. The answer branch is the one for \<^verbatim>\<open>"llm_response"\<close>:
  wherever such a pair stands in the sequence, the run is the run over what stands before
  it, then the frame of the pair, which ends with its text as it is (line 90), then the
  run over what follows. A pair whose step is \<^verbatim>\<open>"answer"\<close> matches no branch: wherever
  it stands, the run is the run over the sequence without it.
\<close>

theorem llm_response_is_answer_stage:
  "raw_stream_response dumps (pre @ (''llm_response'', PyStr t) # rest) =
     seq_streams (raw_stream_response dumps pre)
       (seq_streams ((if t = [] then [PyStr disclaimer] else []) @ [PyStr t], Finished)
          (raw_stream_response dumps rest))
   \<and> raw_stream_response dumps (pre @ (''answer'', d) # rest) =
       raw_stream_response dumps (pre @ rest)
   \<and> (raw_stream_response dumps [(step, d)] \<noteq> ([], Finished)) =
       (step \<in> {''contexts'', ''llm_response'', ''related_questions''})"
proof -
  have a: "raw_stream_response dumps [(''llm_response'', PyStr t)] =
             ((if t = [] then [PyStr disclaimer] else []) @ [PyStr t], Finished)"
    by simp
  have b: "raw_stream_response dumps [(''answer'', d)] = ([], Finished)"
    by simp
  have c: "(raw_stream_response dumps [(step, d)] \<noteq> ([], Finished)) =
       (step \<in> {''contexts'', ''llm_response'', ''related_questions''})"
    by (cases "dumps d") (simp_all add: Let_def)
  have "raw_stream_response dumps (pre @ (''answer'', d) # rest) =
       raw_stream_response dumps (pre @ rest)"
    unfolding item_at_position b seq_streams_unit
    by (simp only: raw_stream_response_append)
  with c show ?thesis
    unfolding item_at_position a by simp
qed

theorem llm_response_is_answer_stage_witness:
  "raw_stream_response sample_dumps
     ([(''contexts'', PyList [])] @ (''llm_response'', PyStr ''hi'') # [(''related_questions'', PyList [])]) =
   ([PyStr (''[]'' @ llm_delim), PyStr ''hi'', PyStr (rq_delim @ ''[]'')], Finished)
   \<and> raw_stream_response sample_dumps
     ([(''contexts'', PyList [])] @ (''answer'', PyStr ''hi'') # [(''related_questions'', PyList [])]) =
   ([PyStr (''[]'' @ llm_delim), PyStr (rq_delim @ ''[]'')], Finished)"
  using llm_response_is_answer_stage [where dumps = sample_dumps and pre = "[(''contexts'', PyList [])]" and t = "''hi''"
      and d = "PyStr ''hi''" and rest = "[(''related_questions'', PyList [])]"]
  by simp

text \<open>
  C8. The generator is a homomorphism from sequences of pairs to runs: the run over two
  sequences in a row is the run over the first followed by the run over the second,
  whatever the order of the steps in them. For every sequence whose \<^verbatim>\<open>"contexts"\<close>
  payloads serialise, in whatever order its steps come, the run is therefore the
  concatenation, in input order, of what the generator yields for each item alone, and
  it finishes: no item is moved, dropped or rejected for the place it stands at.
\<close>

theorem stream_is_concatenation_of_frames:
  "raw_stream_response dumps (xs @ ys) =
     seq_streams (raw_stream_response dumps xs) (raw_stream_response dumps ys)
   \<and> ((\<forall>(step, data) \<in> set xs. step = ''contexts'' \<longrightarrow> \<not> isl (dumps data)) \<longrightarrow>
        raw_stream_response dumps xs =
          (concat (map (\<lambda>x. fst (raw_stream_response dumps [x])) xs), Finished))"
proof -
  have "raw_stream_response dumps xs =
          (concat (map (\<lambda>x. fst (raw_stream_response dumps [x])) xs), Finished)"
    if "\<forall>(step, data) \<in> set xs. step = ''contexts'' \<longrightarrow> \<not> isl (dumps data)"
    using that
  proof (induction xs)
    case Nil
    show ?case by simp
  next
    case (Cons x xs)
    obtain step data where x: "x = (step, data)" by (cases x)
    from Cons.prems x have "step = ''contexts'' \<longrightarrow> \<not> isl (dumps data)" by simp
    then have "snd (raw_stream_response dumps [x]) = Finished"
      unfolding x by (rule single_item_finished)
    then have one: "raw_stream_response dumps [x] = (fst (raw_stream_response dumps [x]), Finished)"
      by (metis prod.collapse)
    from Cons.prems
    have "\<forall>(step, data) \<in> set xs. step = ''contexts'' \<longrightarrow> \<not> isl (dumps data)"
      by simp
    then have rest: "raw_stream_response dumps xs =
        (concat (map (\<lambda>x. fst (raw_stream_response dumps [x])) xs), Finished)"
      by (rule Cons.IH)
    have "raw_stream_response dumps (x # xs) =
            seq_streams (raw_stream_response dumps [x]) (raw_stream_response dumps xs)"
      using raw_stream_response_append [of dumps "[x]" xs] by simp
    also have "\<dots> = (fst (raw_stream_response dumps [x]) @ fst (raw_stream_response dumps xs),
                     snd (raw_stream_response dumps xs))"
      by (subst one) (rule seq_streams_Finished)
    finally show ?case by (simp add: rest)
  qed
  then show ?thesis by (simp add: raw_stream_response_append)
qed

theorem stream_is_concatenation_of_frames_witness:
  "raw_stream_response sample_dumps
     [(''related_questions'', PyList [PyStr ''q'']), (''llm_response'', PyStr ''a''),
      (''contexts'', PyList []), (''llm_response'', PyStr [])] =
   ([PyStr (rq_delim @ [CHR ''['', CHR 0x22, CHR ''q'', CHR 0x22, CHR '']'']), PyStr ''a'',
     PyStr (''[]'' @ llm_delim), PyStr disclaimer, PyStr []], Finished)"
proof -
  have h: "\<forall>(step, data) \<in> set [(''related_questions'', PyList [PyStr ''q'']),
        (''llm_response'', PyStr ''a''), (''contexts'', PyList []), (''llm_response'', PyStr [])].
      step = ''contexts'' \<longrightarrow> \<not> isl (sample_dumps data)"
    by simp
  from stream_is_concatenation_of_frames [where dumps = sample_dumps
      and xs = "[(''related_questions'', PyList [PyStr ''q'']), (''llm_response'', PyStr ''a''),
                 (''contexts'', PyList []), (''llm_response'', PyStr [])]"
      and ys = "[]", THEN conjunct2, THEN mp, OF h]
  show ?thesis by simp
qed

text \<open>
  C9. A pair whose step is none of \<^verbatim>\<open>"contexts"\<close>, \<^verbatim>\<open>"llm_response"\<close>,
  \<^verbatim>\<open>"related_questions"\<close> yields nothing and does not end the run: wherever it stands,
  the run is the run over the sequence without it. The branch that yields the answer text
  is taken on the literal \<^verbatim>\<open>"llm_response"\<close> and on no other step: a one-item run
  yields the payload \<^verbatim>\<open>"x"\<close> as its only chunk exactly when the step is that literal.
\<close>

theorem unknown_step_ignored:
  assumes "step \<noteq> ''contexts''" and "step \<noteq> ''llm_response''"
    and "step \<noteq> ''related_questions''"
  shows "raw_stream_response dumps [(step, data)] = ([], Finished)
       \<and> raw_stream_response dumps (pre @ (step, data) # rest) =
         raw_stream_response dumps (pre @ rest)
       \<and> (fst (raw_stream_response dumps [(s, PyStr ''x'')]) = [PyStr ''x'']) = (s = ''llm_response'')"
proof -
  have one: "raw_stream_response dumps [(step, data)] = ([], Finished)"
    using assms by simp
  have "raw_stream_response dumps (pre @ [(step, data)] @ rest) =
          raw_stream_response dumps (pre @ rest)"
    unfolding raw_stream_response_append one
    by (cases "raw_stream_response dumps rest") simp
  moreover have "(fst (raw_stream_response dumps [(s, PyStr ''x'')]) = [PyStr ''x'']) = (s = ''llm_response'')"
    by (cases "dumps (PyStr ''x'')") (simp_all add: Let_def llm_delim_def rq_delim_def)
  ultimately show ?thesis using one by simp
qed

theorem unknown_step_ignored_witness:
  "''LLM_RESPONSE'' \<noteq> ''contexts'' \<and> ''LLM_RESPONSE'' \<noteq> ''llm_response'' \<and> ''LLM_RESPONSE'' \<noteq> ''related_questions''
   \<and> raw_stream_response sample_dumps [(''LLM_RESPONSE'', PyStr ''hi'')] = ([], Finished)
   \<and> raw_stream_response sample_dumps
       ([(''contexts'', PyList [])] @ (''LLM_RESPONSE'', PyStr ''hi'') # [(''llm_response'', PyStr ''b'')]) =
     ([PyStr (''[]'' @ llm_delim), PyStr ''b''], Finished)"
proof -
  have h1: "''LLM_RESPONSE'' \<noteq> ''contexts''" and h2: "''LLM_RESPONSE'' \<noteq> ''llm_response''"
    and h3: "''LLM_RESPONSE'' \<noteq> ''related_questions''"
    by simp_all
  from unknown_step_ignored [OF h1 h2 h3, where dumps = sample_dumps and data = "PyStr ''hi''"
      and pre = "[(''contexts'', PyList [])]" and rest = "[(''llm_response'', PyStr ''b'')]"]
  show ?thesis by simp
qed

section \<open>The stream generator: serialisation failures\<close>

text \<open>
  C7. When the payload of a \<^verbatim>\<open>"related_questions"\<close> item cannot be serialised
  (\<open>dumps\<close> raises), the item yields the related-questions delimiter followed by the
  text \<^verbatim>\<open>[]\<close>, and the run is not ended by it: alone the item finishes, and behind
  any prefix that finished the run goes on with the items that follow.
\<close>

theorem related_questions_fallback:
  assumes "dumps data = Inl e"
  shows "raw_stream_response dumps [(''related_questions'', data)] =
           ([PyStr (rq_delim @ ''[]'')], Finished)
       \<and> (raw_stream_response dumps pre = (out, Finished) \<longrightarrow>
            raw_stream_response dumps (pre @ (''related_questions'', data) # rest) =
              seq_streams (out @ [PyStr (rq_delim @ ''[]'')], Finished)
                (raw_stream_response dumps rest))"
proof -
  have one: "raw_stream_response dumps [(''related_questions'', data)] =
           ([PyStr (rq_delim @ ''[]'')], Finished)"
    using assms by simp
  have "raw_stream_response dumps (pre @ [(''related_questions'', data)] @ rest) =
          seq_streams (out @ [PyStr (rq_delim @ ''[]'')], Finished)
            (raw_stream_response dumps rest)"
    if "raw_stream_response dumps pre = (out, Finished)"
    unfolding raw_stream_response_append one that
    by (cases "raw_stream_response dumps rest") simp
  with one show ?thesis by simp
qed

theorem related_questions_fallback_witness:
  "sample_dumps (PyObject True) = Inl (TypeError ''Object is not JSON serializable'')
   \<and> raw_stream_response sample_dumps [(''llm_response'', PyStr ''a'')] = ([PyStr ''a''], Finished)
   \<and> raw_stream_response sample_dumps
       ([(''llm_response'', PyStr ''a'')] @ (''related_questions'', PyObject True) # [(''llm_response'', PyStr ''b'')]) =
     ([PyStr ''a'', PyStr (rq_delim @ ''[]''), PyStr ''b''], Finished)"
proof -
  have h: "sample_dumps (PyObject True) = Inl (TypeError ''Object is not JSON serializable'')"
    by simp
  have p: "raw_stream_response sample_dumps [(''llm_response'', PyStr ''a'')] = ([PyStr ''a''], Finished)"
    by simp
  from related_questions_fallback [where dumps = sample_dumps and data = "PyObject True"
      and pre = "[(''llm_response'', PyStr ''a'')]" and out = "[PyStr ''a'']"
      and rest = "[(''llm_response'', PyStr ''b'')]", OF h] p h
  show ?thesis by simp
qed

text \<open>
  C10. When the payload of a \<^verbatim>\<open>"contexts"\<close> item cannot be serialised, the exception
  leaves the generator: the item yields nothing, neither a frame nor the delimiter, the
  run ends with the exception raised, and no item behind it is processed. There is no
  \<^verbatim>\<open>[]\<close> in its place.
\<close>

theorem contexts_failure_propagates:
  assumes "dumps data = Inl e"
  shows "raw_stream_response dumps ((''contexts'', data) # rest) = ([], Raised e)
       \<and> (raw_stream_response dumps pre = (out, Finished) \<longrightarrow>
            raw_stream_response dumps (pre @ (''contexts'', data) # rest) = (out, Raised e))"
proof -
  have one: "raw_stream_response dumps ((''contexts'', data) # rest) = ([], Raised e)"
    using assms by simp
  have "raw_stream_response dumps (pre @ (''contexts'', data) # rest) = (out, Raised e)"
    if "raw_stream_response dumps pre = (out, Finished)"
    unfolding raw_stream_response_append one that by simp
  with one show ?thesis by simp
qed

theorem contexts_failure_propagates_witness:
  "sample_dumps (PyObject True) = Inl (TypeError ''Object is not JSON serializable'')
   \<and> raw_stream_response sample_dumps [(''bogus'', PyNone)] = ([], Finished)
   \<and> raw_stream_response sample_dumps
       ([(''bogus'', PyNone)] @ (''contexts'', PyObject True) # [(''llm_response'', PyStr ''b'')]) =
     ([], Raised (TypeError ''Object is not JSON serializable''))"
proof -
  have h: "sample_dumps (PyObject True) = Inl (TypeError ''Object is not JSON serializable'')"
    by simp
  have p: "raw_stream_response sample_dumps [(''bogus'', PyNone)] = ([], Finished)"
    by simp
  from contexts_failure_propagates [where dumps = sample_dumps and data = "PyObject True"
      and pre = "[(''bogus'', PyNone)]" and out = "[]"
      and rest = "[(''llm_response'', PyStr ''b'')]", OF h] p h
  show ?thesis by simp
qed

end
